theory Spec2Isabelle
  imports Main
begin

section \<open>Strings and characters\<close>

text \<open>
  A Python \<open>str\<close> is modelled as a \<open>string\<close>, one \<open>char\<close> per code point, for the
  code points below 256 (Latin-1). On that range \<open>\d\<close> is the ten ASCII digits, \<open>\s\<close>
  is the characters for which \<open>str.isspace\<close> holds, and \<open>str.lower\<close> maps
  \<open>A-Z\<close> and the accented capitals \<open>0xC0-0xDE\<close> (without \<open>0xD7\<close>) 32 places up.
  Beyond that range \<open>\d\<close> and \<open>\s\<close> also match the other decimal digits and spaces
  of Unicode: a text with such characters is outside the model, and where a statement below
  speaks of digits it speaks of the texts of this range.
\<close>

definition code :: "char \<Rightarrow> nat" where
  "code c = of_char c"

definition in_range :: "char \<Rightarrow> char \<Rightarrow> char \<Rightarrow> bool" where
  "in_range lo hi c = (code lo \<le> code c \<and> code c \<le> code hi)"

definition is_digit :: "char \<Rightarrow> bool" where
  "is_digit c = in_range (CHR ''0'') (CHR ''9'') c"

definition is_space :: "char \<Rightarrow> bool" where
  "is_space c = ((9 \<le> code c \<and> code c \<le> 13) \<or> (28 \<le> code c \<and> code c \<le> 32)
                  \<or> code c = 133 \<or> code c = 160)"

definition lower_char :: "char \<Rightarrow> char" where
  "lower_char c =
     (if (65 \<le> code c \<and> code c \<le> 90) \<or> (192 \<le> code c \<and> code c \<le> 222 \<and> code c \<noteq> 215)
      then char_of (code c + 32) else c)"

text \<open>\<open>s.lower()\<close>\<close>

definition lower :: "string \<Rightarrow> string" where
  "lower s = map lower_char s"

text \<open>\<open>s.startswith(p)\<close> and \<open>s.endswith(p)\<close>\<close>

definition startswith :: "string \<Rightarrow> string \<Rightarrow> bool" where
  "startswith s p = (take (length p) s = p)"

definition endswith :: "string \<Rightarrow> string \<Rightarrow> bool" where
  "endswith s p = (length p \<le> length s \<and> drop (length s - length p) s = p)"

text \<open>\<open>p in s\<close> on strings: \<open>p\<close> occurs in \<open>s\<close> as a contiguous substring.\<close>

fun contains :: "string \<Rightarrow> string \<Rightarrow> bool" where
  "contains [] p = (p = [])"
| "contains (c # cs) p = (startswith (c # cs) p \<or> contains cs p)"

text \<open>\<open>sep.join(xs)\<close>\<close>

fun join :: "string \<Rightarrow> string list \<Rightarrow> string" where
  "join sep [] = []"
| "join sep [x] = x"
| "join sep (x # y # ys) = x @ sep @ join sep (y # ys)"

section \<open>The regular expressions of the program\<close>

text \<open>
  The fragment of Python's \<open>re\<close> that the program uses, as a backtracking matcher:
  alternatives are tried in the order \<open>re\<close> tries them (greedy repetition takes the
  longest run first, lazy repetition the shortest, the left branch of \<open>|\<close> first), and
  the first way of matching that lets the rest of the pattern succeed is the match.
  Starred items are single characters in all four patterns. There is one capturing group
  at most, and \<open>Backref\<close> is \<open>\1\<close>.
\<close>

datatype citem = CChar char | CRange char char | CSpace

datatype atom = Lit char | AnyChar | Digit | NonDigit | Class "citem list"

datatype rx =
    Eps
  | Atom atom
  | Seq rx rx
  | Alt rx rx
  | Opt rx
  | Star atom
  | LazyStar atom
  | Times nat rx
  | Group rx
  | Backref
  | Bol
  | Eol

record flags =
  ignorecase :: bool
  dotall :: bool

definition no_flags :: flags where
  "no_flags = \<lparr>ignorecase = False, dotall = False\<rparr>"

fun citem_ok :: "citem \<Rightarrow> char \<Rightarrow> bool" where
  "citem_ok (CChar x) c = (c = x)"
| "citem_ok (CRange lo hi) c = in_range lo hi c"
| "citem_ok CSpace c = is_space c"

text \<open>
  \<open>IGNORECASE\<close> acts on the literals and on the back-reference; the one pattern compiled
  with it has no character class.
\<close>

fun atom_ok :: "flags \<Rightarrow> atom \<Rightarrow> char \<Rightarrow> bool" where
  "atom_ok f (Lit x) c = (if ignorecase f then lower_char c = lower_char x else c = x)"
| "atom_ok f AnyChar c = (dotall f \<or> c \<noteq> CHR 0x0A)"
| "atom_ok f Digit c = is_digit c"
| "atom_ok f NonDigit c = (\<not> is_digit c)"
| "atom_ok f (Class items) c = (\<exists>i \<in> set items. citem_ok i c)"

type_synonym cont = "string \<Rightarrow> string option \<Rightarrow> string option"

text \<open>
  Greedy \<open>a*\<close>: take one more character when possible and only give it back when the
  rest of the pattern fails. Lazy \<open>a*?\<close>: try the rest of the pattern first.
\<close>

fun star_greedy :: "(char \<Rightarrow> bool) \<Rightarrow> string \<Rightarrow> (string \<Rightarrow> string option) \<Rightarrow> string option" where
  "star_greedy P [] k = k []"
| "star_greedy P (c # cs) k =
     (if P c then (case star_greedy P cs k of Some r \<Rightarrow> Some r | None \<Rightarrow> k (c # cs))
      else k (c # cs))"

fun star_lazy :: "(char \<Rightarrow> bool) \<Rightarrow> string \<Rightarrow> (string \<Rightarrow> string option) \<Rightarrow> string option" where
  "star_lazy P [] k = k []"
| "star_lazy P (c # cs) k =
     (case k (c # cs) of Some r \<Rightarrow> Some r
      | None \<Rightarrow> if P c then star_lazy P cs k else None)"

fun times :: "nat \<Rightarrow> (string \<Rightarrow> string option \<Rightarrow> cont \<Rightarrow> string option)
                \<Rightarrow> string \<Rightarrow> string option \<Rightarrow> cont \<Rightarrow> string option" where
  "times 0 m s g k = k s g"
| "times (Suc i) m s g k = m s g (\<lambda>s' g'. times i m s' g' k)"

text \<open>
  \<open>rx_match r f n s g k\<close>: match \<open>r\<close> at the front of the rest \<open>s\<close> of a subject of
  length \<open>n\<close>, with \<open>g\<close> the text of group 1 so far, and hand what is left to the
  continuation \<open>k\<close>. The result is what is left of the subject after the whole match.
\<close>

primrec rx_match :: "rx \<Rightarrow> flags \<Rightarrow> nat \<Rightarrow> string \<Rightarrow> string option \<Rightarrow> cont \<Rightarrow> string option" where
  "rx_match Eps = (\<lambda>f n s g k. k s g)"
| "rx_match (Atom a) = (\<lambda>f n s g k.
     (case s of [] \<Rightarrow> None | c # cs \<Rightarrow> if atom_ok f a c then k cs g else None))"
| "rx_match (Seq a b) = (\<lambda>f n s g k. rx_match a f n s g (\<lambda>s' g'. rx_match b f n s' g' k))"
| "rx_match (Alt a b) = (\<lambda>f n s g k.
     (case rx_match a f n s g k of Some r \<Rightarrow> Some r | None \<Rightarrow> rx_match b f n s g k))"
| "rx_match (Opt a) = (\<lambda>f n s g k.
     (case rx_match a f n s g k of Some r \<Rightarrow> Some r | None \<Rightarrow> k s g))"
| "rx_match (Star a) = (\<lambda>f n s g k. star_greedy (atom_ok f a) s (\<lambda>s'. k s' g))"
| "rx_match (LazyStar a) = (\<lambda>f n s g k. star_lazy (atom_ok f a) s (\<lambda>s'. k s' g))"
| "rx_match (Times i a) = (\<lambda>f n s g k. times i (rx_match a f n) s g k)"
| "rx_match (Group a) = (\<lambda>f n s g k.
     rx_match a f n s g (\<lambda>s' g'. k s' (Some (take (length s - length s') s))))"
| "rx_match Backref = (\<lambda>f n s g k.
     (case g of None \<Rightarrow> None
      | Some t \<Rightarrow>
          if length t \<le> length s \<and>
             (if ignorecase f then lower (take (length t) s) = lower t else take (length t) s = t)
          then k (drop (length t) s) g else None))"
| "rx_match Bol = (\<lambda>f n s g k. if length s = n then k s g else None)"
| "rx_match Eol = (\<lambda>f n s g k. if s = [] \<or> s = [CHR 0x0A] then k s g else None)"

text \<open>The match of \<open>r\<close> that starts exactly at the front of \<open>s\<close>: what it leaves.\<close>

definition match_at :: "flags \<Rightarrow> rx \<Rightarrow> nat \<Rightarrow> string \<Rightarrow> string option" where
  "match_at f r n s = rx_match r f n s None (\<lambda>s' g. Some s')"

text \<open>\<open>re.match(r, s)\<close> as a truth value.\<close>

definition re_match :: "flags \<Rightarrow> rx \<Rightarrow> string \<Rightarrow> bool" where
  "re_match f r s = (match_at f r (length s) s \<noteq> None)"

text \<open>
  \<open>re.findall(r, s)\<close> for a pattern without capturing group: the matches from left to
  right, each search starting where the last match ended. \<open>skip\<close> counts the characters
  of the current match still to pass over.
\<close>

fun findall_from :: "flags \<Rightarrow> rx \<Rightarrow> nat \<Rightarrow> nat \<Rightarrow> string \<Rightarrow> string list" where
  "findall_from f r n skip [] =
     (if skip = 0 then (case match_at f r n [] of None \<Rightarrow> [] | Some s' \<Rightarrow> [[]]) else [])"
| "findall_from f r n skip (c # cs) =
     (if 0 < skip then findall_from f r n (skip - 1) cs
      else (case match_at f r n (c # cs) of
              None \<Rightarrow> findall_from f r n 0 cs
            | Some s' \<Rightarrow>
                (let l = length (c # cs) - length s'
                 in take l (c # cs) # findall_from f r n (l - 1) cs)))"

definition re_findall :: "flags \<Rightarrow> rx \<Rightarrow> string \<Rightarrow> string list" where
  "re_findall f r s = findall_from f r (length s) 0 s"

text \<open>\<open>re.sub(r, repl, s)\<close> for a replacement text without escapes.\<close>

fun sub_from :: "flags \<Rightarrow> rx \<Rightarrow> string \<Rightarrow> nat \<Rightarrow> nat \<Rightarrow> string \<Rightarrow> string" where
  "sub_from f r repl n skip [] =
     (if skip = 0 then (case match_at f r n [] of None \<Rightarrow> [] | Some s' \<Rightarrow> repl) else [])"
| "sub_from f r repl n skip (c # cs) =
     (if 0 < skip then sub_from f r repl n (skip - 1) cs
      else (case match_at f r n (c # cs) of
              None \<Rightarrow> c # sub_from f r repl n 0 cs
            | Some s' \<Rightarrow>
                (let l = length (c # cs) - length s'
                 in if l = 0 then repl @ c # sub_from f r repl n 0 cs
                    else repl @ sub_from f r repl n (l - 1) cs)))"

definition re_sub :: "flags \<Rightarrow> rx \<Rightarrow> string \<Rightarrow> string \<Rightarrow> string" where
  "re_sub f r repl s = sub_from f r repl (length s) 0 s"

text \<open>Writing patterns: a sequence, a literal text, \<open>a+\<close> and \<open>a{n,}\<close>.\<close>

fun cat :: "rx list \<Rightarrow> rx" where
  "cat [] = Eps"
| "cat [r] = r"
| "cat (r # rs) = Seq r (cat rs)"

definition str :: "string \<Rightarrow> rx" where
  "str s = cat (map (\<lambda>c. Atom (Lit c)) s)"

definition Plus :: "atom \<Rightarrow> rx" where
  "Plus a = Seq (Atom a) (Star a)"

definition AtLeast :: "nat \<Rightarrow> atom \<Rightarrow> rx" where
  "AtLeast i a = Seq (Times i (Atom a)) (Star a)"

text \<open>\<open>[a-zA-Z0-9_.+-]\<close>, \<open>[a-zA-Z0-9-]\<close>, \<open>[a-zA-Z0-9-.]\<close>, \<open>[a-zA-Z]\<close>, \<open>[\s-]\<close>, \<open>[6-9]\<close>\<close>

definition cls_local :: atom where
  "cls_local = Class [CRange (CHR ''a'') (CHR ''z''), CRange (CHR ''A'') (CHR ''Z''),
                      CRange (CHR ''0'') (CHR ''9''), CChar (CHR ''_''), CChar (CHR ''.''),
                      CChar (CHR ''+''), CChar (CHR ''-'')]"

definition cls_label :: atom where
  "cls_label = Class [CRange (CHR ''a'') (CHR ''z''), CRange (CHR ''A'') (CHR ''Z''),
                      CRange (CHR ''0'') (CHR ''9''), CChar (CHR ''-'')]"

definition cls_tail :: atom where
  "cls_tail = Class [CRange (CHR ''a'') (CHR ''z''), CRange (CHR ''A'') (CHR ''Z''),
                     CRange (CHR ''0'') (CHR ''9''), CChar (CHR ''-''), CChar (CHR ''.'')]"

definition cls_alpha :: atom where
  "cls_alpha = Class [CRange (CHR ''a'') (CHR ''z''), CRange (CHR ''A'') (CHR ''Z'')]"

definition cls_sep :: atom where
  "cls_sep = Class [CSpace, CChar (CHR ''-'')]"

definition cls_6789 :: atom where
  "cls_6789 = Class [CRange (CHR ''6'') (CHR ''9'')]"

text \<open>\<^verbatim>\<open>^[a-zA-Z0-9_.+-]+@[a-zA-Z0-9-]+\.[a-zA-Z]{2,}$\<close>\<close>

definition rx_email_strict :: rx where
  "rx_email_strict =
     cat [Bol, Plus cls_local, Atom (Lit (CHR ''@'')), Plus cls_label, Atom (Lit (CHR ''.'')),
          AtLeast 2 cls_alpha, Eol]"

text \<open>\<^verbatim>\<open>[a-zA-Z0-9_.+-]+@[a-zA-Z0-9-]+\.[a-zA-Z0-9-.]+\<close>\<close>

definition rx_email_raw :: rx where
  "rx_email_raw =
     cat [Plus cls_local, Atom (Lit (CHR ''@'')), Plus cls_label, Atom (Lit (CHR ''.'')),
          Plus cls_tail]"

text \<open>\<^verbatim>\<open>(?:\+91[\s-]*)?[6-9](?:[\s-]*\d){9}\<close>\<close>

definition rx_phone_raw :: rx where
  "rx_phone_raw =
     cat [Opt (cat [str ''+91'', Star cls_sep]), Atom cls_6789,
          Times 9 (Seq (Star cls_sep) (Atom Digit))]"

text \<open>\<^verbatim>\<open><(script|style).*?>.*?</\1>\<close> with \<open>re.DOTALL|re.IGNORECASE\<close>\<close>

definition rx_script_style :: rx where
  "rx_script_style =
     cat [Atom (Lit (CHR ''<'')), Group (Alt (str ''script'') (str ''style'')),
          LazyStar AnyChar, Atom (Lit (CHR ''>'')), LazyStar AnyChar, str ''</'', Backref,
          Atom (Lit (CHR ''>''))]"

definition script_flags :: flags where
  "script_flags = \<lparr>ignorecase = True, dotall = True\<rparr>"

section \<open>Contact extraction\<close>

text \<open>
  \<open>list(set(xs))\<close> lists each element of \<open>xs\<close> once, in an order that Python does not
  fix (it follows the string hashes of the run). The order is a parameter of the model:
  \<open>list_set xs\<close> is the list that \<open>list(set(xs))\<close> gives.
\<close>

type_synonym set_order = "string list \<Rightarrow> string list"

definition set_order_ok :: "set_order \<Rightarrow> bool" where
  "set_order_ok list_set = (\<forall>xs. distinct (list_set xs) \<and> set (list_set xs) = set xs)"

definition asset_exts :: "string list" where
  "asset_exts = [''.js'', ''.css'', ''.png'', ''.jpg'', ''.jpeg'', ''.gif'', ''.svg'']"

text \<open>The body of the loop of \<open>clean_emails\<close>: what one candidate adds to \<open>valid_emails\<close>.\<close>

definition clean_email :: "string \<Rightarrow> string list" where
  "clean_email email0 =
     (let email = lower email0
      in if (\<exists>ext \<in> set asset_exts. endswith email ext) then []
         else if CHR ''@'' \<notin> set email then []
         else if re_match no_flags rx_email_strict email then [email]
         else [])"

definition clean_emails :: "set_order \<Rightarrow> string list \<Rightarrow> string list" where
  "clean_emails list_set emails = list_set (concat (map clean_email emails))"

text \<open>
  \<open>list(dict.fromkeys(xs))\<close>: the keys of a dictionary in insertion order; a key that is
  already there keeps its place.
\<close>

fun dict_fromkeys :: "string list \<Rightarrow> string list \<Rightarrow> string list" where
  "dict_fromkeys d [] = d"
| "dict_fromkeys d (k # ks) = dict_fromkeys (if k \<in> set d then d else d @ [k]) ks"

text \<open>\<open>xs[:n]\<close>: a negative \<open>n\<close> counts from the end.\<close>

definition slice_to :: "int \<Rightarrow> 'a list \<Rightarrow> 'a list" where
  "slice_to n xs = (if 0 \<le> n then take (nat n) xs else take (nat (int (length xs) + n)) xs)"

definition clean_phone :: "string \<Rightarrow> string list" where
  "clean_phone p =
     (let digits = re_sub no_flags (Atom NonDigit) [] p
      in if length digits = 10 \<and> contains ''6789'' [hd digits] then [digits] else [])"

definition clean_phones :: "string list \<Rightarrow> int \<Rightarrow> string list" where
  "clean_phones phones max_count =
     slice_to max_count (dict_fromkeys [] (concat (map clean_phone phones)))"

definition extract_contact_info :: "set_order \<Rightarrow> string \<Rightarrow> int \<Rightarrow> string list \<times> string list" where
  "extract_contact_info list_set html max_phones =
     (let clean_html = re_sub script_flags rx_script_style [] html;
          raw_emails = re_findall no_flags rx_email_raw clean_html;
          emails = clean_emails list_set raw_emails;
          raw_phones = re_findall no_flags rx_phone_raw clean_html;
          phones = clean_phones raw_phones max_phones
      in (emails, phones))"

section \<open>The outside world\<close>

text \<open>
  An exception is a value: its class and the text that \<open>str(e)\<close> gives. The network,
  the two HTML parsers, \<open>urljoin\<close> and the search service are parameters of the model,
  gathered in a record: each either raises or returns.
\<close>

datatype exn = Exn (exn_class: string) (exn_str: string)

record response =
  status_code :: int
  resp_text :: string
  http_error_msg :: string

record tag =
  tag_name :: string
  tag_attrs :: "(string \<times> string) list"
  tag_string :: "string option"

text \<open>
  A parsed document is the list of its tags in document order, each with its attributes
  and its \<open>.string\<close> (\<open>None\<close> when the tag has no single text child).
\<close>

type_synonym soup = "tag list"

type_synonym search_result = "(string \<times> string) list"

text \<open>
  \<open>ddgs_text\<close> gives the results that the iteration draws, and then how the iteration
  ends: by an exception or normally. A search that raises at once is \<open>([], Some e)\<close>.
\<close>

record world =
  list_set :: set_order
  requests_get :: "string \<Rightarrow> (string \<times> string) list \<Rightarrow> nat \<Rightarrow> exn + response"
  bs_lxml :: "string \<Rightarrow> exn + soup"
  bs_html_parser :: "string \<Rightarrow> exn + soup"
  urljoin :: "string \<Rightarrow> string \<Rightarrow> exn + string"
  ddgs_text :: "string \<Rightarrow> nat \<Rightarrow> search_result list \<times> exn option"

section \<open>Fetching\<close>

definition UA :: string where
  "UA = ''Mozilla/5.0 (Windows NT 10.0; Win64; x64) '' @
        ''AppleWebKit/537.36 (KHTML, like Gecko) '' @
        ''Chrome/124.0.0.0 Safari/537.36''"

text \<open>\<open>resp.raise_for_status()\<close> raises \<open>HTTPError\<close> for a status from 400 to 599.\<close>

definition raise_for_status :: "response \<Rightarrow> exn option" where
  "raise_for_status resp =
     (if 400 \<le> status_code resp \<and> status_code resp < 600
      then Some (Exn ''HTTPError'' (http_error_msg resp)) else None)"

definition fetch_html :: "world \<Rightarrow> string \<Rightarrow> nat \<Rightarrow> exn + string" where
  "fetch_html w url timeout =
     (case requests_get w url [(''User-Agent'', UA), (''Accept-Language'', ''en-US,en;q=0.9'')]
             timeout of
        Inl e \<Rightarrow> Inl e
      | Inr resp \<Rightarrow>
          (case raise_for_status resp of
             Some e \<Rightarrow> Inl e
           | None \<Rightarrow> Inr (resp_text resp)))"

definition get_soup :: "world \<Rightarrow> string \<Rightarrow> exn + soup" where
  "get_soup w html =
     (case bs_lxml w html of
        Inr soup \<Rightarrow> Inr soup
      | Inl e \<Rightarrow> bs_html_parser w html)"

section \<open>Category\<close>

definition CATEGORY_KEYWORDS :: "(string \<times> string list) list" where
  "CATEGORY_KEYWORDS =
    [(''Skincare'', [''skincare'', ''skin care'', ''face cream'', ''moisturizer'', ''serum'',
                     ''lotion'', ''cleanser'']),
     (''Hair Care'', [''shampoo'', ''conditioner'', ''hair oil'', ''haircare'', ''hair mask'']),
     (''Footwear'', [''shoes'', ''sneakers'', ''sandals'', ''boots'', ''footwear'']),
     (''Fragnances'', [''perfume'', ''fragrance'', ''cologne'', ''deodorant'', ''scent'',
                       ''aroma'', ''incense'', ''essential oil'', ''diffuser'', ''attar'',
                       ''room spray'', ''aromatherapy'']),
     (''Personal Care'', [''personal care'', ''toothpaste'', ''soap'', ''body wash'',
                          ''hygiene'']),
     (''Clothing'', [''clothing'', ''apparel'', ''t-shirt'', ''jeans'', ''dress'', ''fashion'',
                     ''wear'']),
     (''Electronics'', [''laptop'', ''mobile'', ''electronics'', ''gadgets'', ''headphones'',
                        ''smartphone'']),
     (''Jewelry'', [''jewelry'', ''ring'', ''necklace'', ''bracelet'', ''gold'', ''silver'']),
     (''Furniture'', [''furniture'', ''sofa'', ''table'', ''chair'', ''interior'']),
     (''Food & Beverages'', [''food'', ''beverage'', ''snacks'', ''drink'', ''restaurant'',
                             ''cafe'']),
     (''Other'', [])]"

text \<open>\<open>soup.find(name, attrs={key: value})\<close>: the first such tag of the document.\<close>

definition soup_find :: "soup \<Rightarrow> string \<Rightarrow> string \<Rightarrow> string \<Rightarrow> tag option" where
  "soup_find soup nm key val =
     find (\<lambda>t. tag_name t = nm \<and> map_of (tag_attrs t) key = Some val) soup"

text \<open>\<open>soup.title\<close>: the first \<open>title\<close> tag.\<close>

definition soup_title :: "soup \<Rightarrow> tag option" where
  "soup_title soup = find (\<lambda>t. tag_name t = ''title'') soup"

text \<open>\<open>tag.get(key)\<close>\<close>

definition tag_get :: "tag \<Rightarrow> string \<Rightarrow> string option" where
  "tag_get t key = map_of (tag_attrs t) key"

text \<open>A string that a condition takes as true: one that is there and not empty.\<close>

fun truthy :: "string option \<Rightarrow> string option" where
  "truthy None = None"
| "truthy (Some s) = (if s = [] then None else Some s)"

text \<open>\<open>a or b\<close> on two tags that may be missing: a tag that is there counts as true.\<close>

fun or_tag :: "tag option \<Rightarrow> tag option \<Rightarrow> tag option" where
  "or_tag (Some t) b = Some t"
| "or_tag None b = b"

text \<open>The first half of \<open>extract_category\<close>: the text that is classified.\<close>

definition extract_category_text :: "soup \<Rightarrow> string" where
  "extract_category_text soup =
     (let meta_desc = or_tag (soup_find soup ''meta'' ''name'' ''description'')
                             (soup_find soup ''meta'' ''property'' ''og:description'')
      in case Option.bind meta_desc (\<lambda>t. truthy (tag_get t ''content'')) of
           Some content \<Rightarrow> lower content
         | None \<Rightarrow>
             (case Option.bind (soup_title soup) (\<lambda>t. truthy (tag_string t)) of
                Some s \<Rightarrow> lower s
              | None \<Rightarrow> []))"

text \<open>The second half: the loop over the dictionary, in the order of its entries.\<close>

fun match_category :: "(string \<times> string list) list \<Rightarrow> string \<Rightarrow> string" where
  "match_category [] text = ''Other''"
| "match_category ((category, keywords) # rest) text =
     (if \<exists>kw \<in> set keywords. contains text kw then category
      else match_category rest text)"

definition extract_category :: "soup \<Rightarrow> string" where
  "extract_category soup = match_category CATEGORY_KEYWORDS (extract_category_text soup)"

section \<open>Scraping one site\<close>

record result_record =
  Website :: string
  Emails :: string
  Phone_Numbers :: string
  Category :: string

text \<open>Every failure inside \<open>scrape_contact_page\<close> is caught and gives two empty lists.\<close>

definition scrape_contact_page :: "world \<Rightarrow> string \<Rightarrow> int \<Rightarrow> string list \<times> string list" where
  "scrape_contact_page w base_url max_phones =
     (case urljoin w base_url ''/contact'' of
        Inl e \<Rightarrow> ([], [])
      | Inr contact_url \<Rightarrow>
          (case fetch_html w contact_url 8 of
             Inl e \<Rightarrow> ([], [])
           | Inr html \<Rightarrow> extract_contact_info (list_set w) html max_phones))"

text \<open>\<open>a or b\<close> on two lists: \<open>a\<close> unless it is empty.\<close>

definition or_list :: "'a list \<Rightarrow> 'a list \<Rightarrow> 'a list" where
  "or_list a b = (if a \<noteq> [] then a else b)"

text \<open>The body of the \<open>try\<close> of \<open>scrape_website\<close>: it raises or gives the record.\<close>

definition scrape_website_try :: "world \<Rightarrow> string \<Rightarrow> int \<Rightarrow> exn + result_record" where
  "scrape_website_try w url max_phones =
     (case fetch_html w url 15 of
        Inl e \<Rightarrow> Inl e
      | Inr html \<Rightarrow>
          (case get_soup w html of
             Inl e \<Rightarrow> Inl e
           | Inr soup \<Rightarrow>
               (let (emails, phones) = extract_contact_info (list_set w) html max_phones;
                    (emails, phones) =
                      (if emails = []
                       then (let (c_emails, c_phones) = scrape_contact_page w url max_phones
                             in (or_list emails c_emails, or_list phones c_phones))
                       else (emails, phones));
                    category = extract_category soup
                in Inr \<lparr>Website = url, Emails = join '', '' emails,
                         Phone_Numbers = join '', '' phones, Category = category\<rparr>)))"

text \<open>\<open>scrape_website\<close>: the \<open>except Exception as e\<close> turns the exception into a record.\<close>

definition scrape_website :: "world \<Rightarrow> string \<Rightarrow> int \<Rightarrow> result_record" where
  "scrape_website w url max_phones =
     (case scrape_website_try w url max_phones of
        Inr r \<Rightarrow> r
      | Inl e \<Rightarrow> \<lparr>Website = url, Emails = [], Phone_Numbers = [],
                   Category = ''Failed to fetch: '' @ exn_str e\<rparr>)"

section \<open>Finding the site of a company\<close>

text \<open>\<open>r.get("href") or r.get("link")\<close>, when it counts as true.\<close>

definition result_href :: "search_result \<Rightarrow> string option" where
  "result_href r =
     (case truthy (map_of r ''href'') of
        Some h \<Rightarrow> Some h
      | None \<Rightarrow> truthy (map_of r ''link''))"

text \<open>The \<open>for\<close> loop over the results: the first result with a link ends it.\<close>

fun first_href :: "search_result list \<Rightarrow> string option" where
  "first_href [] = None"
| "first_href (r # rs) =
     (case result_href r of
        Some href \<Rightarrow> Some href
      | None \<Rightarrow> first_href rs)"

text \<open>
  \<open>None\<close> is the marker for a site that was not found. An exception that ends the
  iteration is caught, and the function goes on to \<open>return None\<close>.
\<close>

definition get_website_from_search :: "world \<Rightarrow> string \<Rightarrow> string option" where
  "get_website_from_search w company_name =
     (let q = company_name @ '' official website''
      in case ddgs_text w q 1 of
           (results, ending) \<Rightarrow>
             (case first_href results of
                Some href \<Rightarrow> Some href
              | None \<Rightarrow> (case ending of Some e \<Rightarrow> None | None \<Rightarrow> None)))"

section \<open>The list of URLs\<close>

definition normalize :: "string \<Rightarrow> string" where
  "normalize u =
     (if startswith u ''http://'' \<or> startswith u ''https://'' then u else ''https://'' @ u)"

text \<open>\<open>[normalize(u) for u in urls_to_scrape]\<close>, and then one record for each URL.\<close>

definition scrape_urls :: "world \<Rightarrow> string list \<Rightarrow> int \<Rightarrow> result_record list" where
  "scrape_urls w urls_to_scrape max_phones =
     map (\<lambda>url. scrape_website w url max_phones) (map normalize urls_to_scrape)"

section \<open>The list of companies\<close>

text \<open>
  One row of the loop over the companies: the site is looked up, and when there is none
  the row says so; otherwise the link of the search goes to \<open>scrape_website\<close> as it is,
  and the record gets the name of the company.
\<close>

record company_row = result_record +
  Company :: string

definition scrape_company :: "world \<Rightarrow> int \<Rightarrow> string \<Rightarrow> company_row" where
  "scrape_company w max_phones company =
     (case truthy (get_website_from_search w company) of
        None \<Rightarrow> \<lparr>Website = ''Not Found'', Emails = [], Phone_Numbers = [],
                  Category = ''Website not found'', Company = company\<rparr>
      | Some website \<Rightarrow>
          (let data = scrape_website w website max_phones
           in \<lparr>Website = Website data, Emails = Emails data,
               Phone_Numbers = Phone_Numbers data, Category = Category data,
               Company = company\<rparr>))"

definition scrape_companies :: "world \<Rightarrow> string list \<Rightarrow> int \<Rightarrow> company_row list" where
  "scrape_companies w companies max_phones = map (scrape_company w max_phones) companies"

section \<open>Notions used to state the properties\<close>



text \<open>The text after the first \<open>@\<close> of an address, and the number of dots of a text.\<close>

definition domain_part :: "string \<Rightarrow> string" where
  "domain_part e = drop 1 (dropWhile (\<lambda>c. c \<noteq> CHR ''@'') e)"

definition dots :: "string \<Rightarrow> nat" where
  "dots s = length (filter (\<lambda>c. c = CHR ''.'') s)"

text \<open>
  The taxonomy and the choice of the text to classify as the specification words them,
  for comparison with \<open>CATEGORY_KEYWORDS\<close> and \<open>extract_category_text\<close>.
\<close>

definition spec_taxonomy :: "string list" where
  "spec_taxonomy = [''Skincare'', ''Hair Care'', ''Footwear'', ''Fragrances'', ''Personal Care'',
                    ''Clothing'', ''Electronics'', ''Jewelry'', ''Furniture'',
                    ''Food & Beverages'', ''Other'']"

definition spec_category_text :: "soup \<Rightarrow> string" where
  "spec_category_text soup =
     (case Option.bind (soup_find soup ''meta'' ''name'' ''description'')
             (\<lambda>t. truthy (tag_get t ''content'')) of
        Some c \<Rightarrow> lower c
      | None \<Rightarrow>
          (case Option.bind (soup_find soup ''meta'' ''property'' ''og:description'')
                  (\<lambda>t. truthy (tag_get t ''content'')) of
             Some c \<Rightarrow> lower c
           | None \<Rightarrow>
               (case Option.bind (soup_title soup) (\<lambda>t. truthy (tag_string t)) of
                  Some s \<Rightarrow> lower s
                | None \<Rightarrow> [])))"

text \<open>The headers that \<open>fetch_html\<close> sends.\<close>

definition browser_headers :: "(string \<times> string) list" where
  "browser_headers = [(''User-Agent'', UA), (''Accept-Language'', ''en-US,en;q=0.9'')]"



text \<open>
  A scheme is present, in the usual sense of the word for a URL: the text starts with a
  letter, goes on with letters, digits, \<open>+\<close>, \<open>-\<close> or \<open>.\<close>, and then has \<open>://\<close>. This is
  the reading of the specification's words, for comparison with the test of \<open>normalize\<close>.
\<close>

definition is_letter :: "char \<Rightarrow> bool" where
  "is_letter c = (in_range (CHR ''a'') (CHR ''z'') c \<or> in_range (CHR ''A'') (CHR ''Z'') c)"

definition scheme_char :: "char \<Rightarrow> bool" where
  "scheme_char c = (is_letter c \<or> is_digit c \<or> c = CHR ''+'' \<or> c = CHR ''-'' \<or> c = CHR ''.'')"

definition spec_has_scheme :: "string \<Rightarrow> bool" where
  "spec_has_scheme u =
     (let name = takeWhile scheme_char u
      in name \<noteq> [] \<and> is_letter (hd name) \<and> startswith (drop (length name) u) ''://'')"

section \<open>A small world to run the program in\<close>

text \<open>
  One shop whose home page has a phone number and no address and whose contact page has
  both, one site that answers 404, one whose page no parser accepts, and nothing else on
  the network.
\<close>

definition page_home :: string where
  "page_home = ''<title>Shop</title><meta name=description content=Shampoo> Call 98765 43210''"

definition page_contact :: string where
  "page_contact = ''Mail Info@Shop.com or call 91234 56789''"

definition soup_home :: soup where
  "soup_home =
     [\<lparr>tag_name = ''title'', tag_attrs = [], tag_string = Some ''Shop''\<rparr>,
      \<lparr>tag_name = ''meta'', tag_attrs = [(''name'', ''description''), (''content'', ''Shampoo'')],
        tag_string = None\<rparr>]"

definition demo_get :: "string \<Rightarrow> (string \<times> string) list \<Rightarrow> nat \<Rightarrow> exn + response" where
  "demo_get url headers timeout =
     (if url = ''https://shop.example''
      then Inr \<lparr>status_code = 200, resp_text = page_home, http_error_msg = []\<rparr>
      else if url = ''https://shop.example/contact''
      then Inr \<lparr>status_code = 200, resp_text = page_contact, http_error_msg = []\<rparr>
      else if url = ''https://gone.example''
      then Inr \<lparr>status_code = 404, resp_text = [], http_error_msg = ''404 Client Error''\<rparr>
      else if url = ''https://broken.example''
      then Inr \<lparr>status_code = 200, resp_text = ''<<'', http_error_msg = []\<rparr>
      else Inl (Exn ''ConnectTimeout'' ''timed out''))"

definition demo_lxml :: "string \<Rightarrow> exn + soup" where
  "demo_lxml html = (if html = page_home then Inr soup_home else Inl (Exn ''ParserError'' ''bad input''))"

definition demo_html_parser :: "string \<Rightarrow> exn + soup" where
  "demo_html_parser html =
     (if html = page_contact then Inr [] else Inl (Exn ''ParserError'' ''bad input''))"

definition demo_urljoin :: "string \<Rightarrow> string \<Rightarrow> exn + string" where
  "demo_urljoin base path = Inr (base @ path)"

definition demo_search :: "string \<Rightarrow> nat \<Rightarrow> search_result list \<times> exn option" where
  "demo_search q max_results =
     (if q = ''Shop official website''
      then ([[(''title'', ''Shop''), (''href'', ''https://shop.example'')]], None)
      else if q = ''Nobody official website'' then ([], None)
      else ([], Some (Exn ''RatelimitException'' ''202 Ratelimit'')))"

definition demo_world :: world where
  "demo_world = \<lparr>list_set = remdups, requests_get = demo_get, bs_lxml = demo_lxml,
                  bs_html_parser = demo_html_parser, urljoin = demo_urljoin,
                  ddgs_text = demo_search\<rparr>"

text \<open>
  A document whose description tag has no content, while its \<open>og:description\<close> and its
  title have text.
\<close>

definition soup_bare_description :: soup where
  "soup_bare_description =
     [\<lparr>tag_name = ''meta'', tag_attrs = [(''name'', ''description'')], tag_string = None\<rparr>,
      \<lparr>tag_name = ''meta'',
        tag_attrs = [(''property'', ''og:description''), (''content'', ''Shampoo'')],
        tag_string = None\<rparr>,
      \<lparr>tag_name = ''title'', tag_attrs = [], tag_string = Some ''Shoes''\<rparr>]"

text \<open>The text of the title, lower-cased, or the empty text: the last resort of the classifier.\<close>

definition title_text :: "soup \<Rightarrow> string" where
  "title_text soup =
     (case Option.bind (soup_title soup) (\<lambda>t. truthy (tag_string t)) of
        Some s \<Rightarrow> lower s
      | None \<Rightarrow> [])"

text \<open>The record that \<open>scrape_website\<close> gives for a failure.\<close>

definition failure_record :: "string \<Rightarrow> exn \<Rightarrow> result_record" where
  "failure_record url e =
     \<lparr>Website = url, Emails = [], Phone_Numbers = [],
      Category = ''Failed to fetch: '' @ exn_str e\<rparr>"

text \<open>
  A second world: one site whose page has two addresses and two phones, one site whose
  final answer has the status 304 and a body, a search that gives a link without scheme,
  and parsers that give an empty document for every page.
\<close>

definition page_two :: string where
  "page_two = ''Mail Info@Shop.com or Sales@Shop.com, call 98765 43210 or 98765 43211''"

definition other_get :: "string \<Rightarrow> (string \<times> string) list \<Rightarrow> nat \<Rightarrow> exn + response" where
  "other_get url headers timeout =
     (if url = ''https://two.example''
      then Inr \<lparr>status_code = 200, resp_text = page_two, http_error_msg = []\<rparr>
      else if url = ''https://cached.example''
      then Inr \<lparr>status_code = 304, resp_text = ''Mail a@b.co'', http_error_msg = []\<rparr>
      else Inl (Exn ''ConnectionError'' ''connection refused''))"

definition other_parser :: "string \<Rightarrow> exn + soup" where
  "other_parser html = Inr []"

definition other_search :: "string \<Rightarrow> nat \<Rightarrow> search_result list \<times> exn option" where
  "other_search q max_results =
     (if q = ''Bare official website'' then ([[(''href'', ''shop.example'')]], None)
      else ([], None))"

definition other_world :: world where
  "other_world = \<lparr>list_set = remdups, requests_get = other_get, bs_lxml = other_parser,
                   bs_html_parser = other_parser, urljoin = demo_urljoin,
                   ddgs_text = other_search\<rparr>"

section \<open>Lemmas on characters, lists and the matcher\<close>


lemma code_char_of: "n < 256 \<Longrightarrow> code (char_of n) = n"
  by (simp add: code_def)

lemma code_less: "code c < 256"
  by (simp add: code_def)

lemma lower_char_idem: "lower_char (lower_char c) = lower_char c"
proof (cases "(65 \<le> code c \<and> code c \<le> 90) \<or> (192 \<le> code c \<and> code c \<le> 222 \<and> code c \<noteq> 215)")
  case True
  define d :: char where "d = char_of (code c + 32)"
  from True have lc: "lower_char c = d" by (simp add: lower_char_def d_def)
  from True have "code c + 32 < 256" by auto
  then have cd: "code d = code c + 32" unfolding d_def by (rule code_char_of)
  from True have "\<not> ((65 \<le> code d \<and> code d \<le> 90) \<or> (192 \<le> code d \<and> code d \<le> 222 \<and> code d \<noteq> 215))"
    unfolding cd by arith
  then have "lower_char d = d" unfolding lower_char_def by (rule if_not_P)
  with lc show ?thesis by simp
next
  case False
  then have "lower_char c = c" unfolding lower_char_def by (rule if_not_P)
  then show ?thesis by simp
qed

lemma lower_idem: "lower (lower s) = lower s"
  by (simp add: lower_def lower_char_idem)

lemma lower_fixed_no_capital:
  assumes "lower e = e" and "c \<in> set e"
  shows "\<not> in_range (CHR ''A'') (CHR ''Z'') c"
proof
  assume r: "in_range (CHR ''A'') (CHR ''Z'') c"
  then have u: "65 \<le> code c \<and> code c \<le> 90" by (simp add: in_range_def code_def)
  from assms have "lower_char c = c"
    by (metis lower_def map_eq_conv map_ident)
  with u have "char_of (code c + 32) = c" by (simp add: lower_char_def)
  then have "code (char_of (code c + 32)) = code c" by simp
  moreover from u have "code (char_of (code c + 32)) = code c + 32"
    by (intro code_char_of) auto
  ultimately show False by simp
qed







lemma star_greedy_sound:
  "star_greedy P s k = Some x \<Longrightarrow> \<exists>u s'. s = u @ s' \<and> (\<forall>c \<in> set u. P c) \<and> k s' = Some x"
proof (induction s)
  case Nil
  then show ?case by simp
next
  case (Cons c cs)
  show ?case
  proof (cases "P c \<and> star_greedy P cs k = Some x")
    case True
    with Cons.IH obtain u s' where "cs = u @ s'" "\<forall>c \<in> set u. P c" "k s' = Some x" by blast
    with True have "c # cs = (c # u) @ s' \<and> (\<forall>a \<in> set (c # u). P a) \<and> k s' = Some x" by simp
    then show ?thesis by blast
  next
    case False
    with Cons.prems have "k (c # cs) = Some x" by (auto split: if_splits option.splits)
    then have "c # cs = [] @ (c # cs) \<and> (\<forall>a \<in> set []. P a) \<and> k (c # cs) = Some x" by simp
    then show ?thesis by blast
  qed
qed

lemma atom_sound:
  "rx_match (Atom a) f n s g k = Some x \<Longrightarrow> \<exists>c s'. s = c # s' \<and> atom_ok f a c \<and> k s' g = Some x"
  by (cases s) (auto split: if_splits)

lemma plus_sound:
  assumes "rx_match (Plus a) f n s g k = Some x"
  shows "\<exists>u s'. s = u @ s' \<and> u \<noteq> [] \<and> (\<forall>c \<in> set u. atom_ok f a c) \<and> k s' g = Some x"
proof -
  from assms have "rx_match (Atom a) f n s g (\<lambda>s' g'. rx_match (Star a) f n s' g' k) = Some x"
    by (simp add: Plus_def)
  then obtain c s1 where s: "s = c # s1" and c: "atom_ok f a c"
    and r: "rx_match (Star a) f n s1 g k = Some x" by (blast dest: atom_sound)
  from r have "star_greedy (atom_ok f a) s1 (\<lambda>s'. k s' g) = Some x" by simp
  then obtain u s' where "s1 = u @ s'" "\<forall>c \<in> set u. atom_ok f a c" "k s' g = Some x"
    by (blast dest: star_greedy_sound)
  with s c have "s = (c # u) @ s' \<and> c # u \<noteq> [] \<and> (\<forall>c \<in> set (c # u). atom_ok f a c) \<and> k s' g = Some x"
    by simp
  then show ?thesis by blast
qed

lemma at_least_two_sound:
  assumes "rx_match (AtLeast 2 a) f n s g k = Some x"
  shows "\<exists>u s'. s = u @ s' \<and> 2 \<le> length u \<and> (\<forall>c \<in> set u. atom_ok f a c) \<and> k s' g = Some x"
proof -
  have two: "(2::nat) = Suc (Suc 0)" by simp
  from assms have "rx_match (Atom a) f n s g (\<lambda>s' g'. rx_match (Atom a) f n s' g'
      (\<lambda>s' g'. rx_match (Star a) f n s' g' k)) = Some x"
    unfolding AtLeast_def two by simp
  then obtain c1 s1 where s: "s = c1 # s1" and c1: "atom_ok f a c1"
    and r1: "rx_match (Atom a) f n s1 g (\<lambda>s' g'. rx_match (Star a) f n s' g' k) = Some x"
    by (blast dest: atom_sound)
  then obtain c2 s2 where s1: "s1 = c2 # s2" and c2: "atom_ok f a c2"
    and r2: "rx_match (Star a) f n s2 g k = Some x"
    by (blast dest: atom_sound)
  from r2 have "star_greedy (atom_ok f a) s2 (\<lambda>s'. k s' g) = Some x" by simp
  then obtain u s' where "s2 = u @ s'" "\<forall>c \<in> set u. atom_ok f a c" "k s' g = Some x"
    by (blast dest: star_greedy_sound)
  with s s1 c1 c2 have "s = (c1 # c2 # u) @ s' \<and> 2 \<le> length (c1 # c2 # u)
      \<and> (\<forall>c \<in> set (c1 # c2 # u). atom_ok f a c) \<and> k s' g = Some x"
    by simp
  then show ?thesis by blast
qed

lemma email_strict_shape:
  assumes "re_match no_flags rx_email_strict e"
  shows "\<exists>l d t r. e = l @ CHR ''@'' # d @ CHR ''.'' # t @ r \<and>
           l \<noteq> [] \<and> (\<forall>c \<in> set l. atom_ok no_flags cls_local c) \<and>
           d \<noteq> [] \<and> (\<forall>c \<in> set d. atom_ok no_flags cls_label c) \<and>
           2 \<le> length t \<and> (\<forall>c \<in> set t. atom_ok no_flags cls_alpha c) \<and>
           (r = [] \<or> r = [CHR 0x0A])"
proof -
  let ?f = no_flags and ?n = "length e"
  let ?k = "(\<lambda>s' g. Some s') :: cont"
  let ?k6 = "\<lambda>s g. rx_match Eol ?f ?n s g ?k"
  let ?k5 = "\<lambda>s g. rx_match (AtLeast 2 cls_alpha) ?f ?n s g ?k6"
  let ?k4 = "\<lambda>s g. rx_match (Atom (Lit (CHR ''.''))) ?f ?n s g ?k5"
  let ?k3 = "\<lambda>s g. rx_match (Plus cls_label) ?f ?n s g ?k4"
  let ?k2 = "\<lambda>s g. rx_match (Atom (Lit (CHR ''@''))) ?f ?n s g ?k3"
  from assms obtain x where "rx_match (Plus cls_local) ?f ?n e None ?k2 = Some x"
    by (auto simp: re_match_def match_at_def rx_email_strict_def)
  then obtain l s1 where e1: "e = l @ s1" "l \<noteq> []" "\<forall>c \<in> set l. atom_ok ?f cls_local c"
    and r1: "?k2 s1 None = Some x" by (blast dest: plus_sound)
  from r1 obtain c2 s2 where e2: "s1 = c2 # s2" "atom_ok ?f (Lit (CHR ''@'')) c2"
    and r2: "?k3 s2 None = Some x" by (blast dest: atom_sound)
  from r2 obtain d s3 where e3: "s2 = d @ s3" "d \<noteq> []" "\<forall>c \<in> set d. atom_ok ?f cls_label c"
    and r3: "?k4 s3 None = Some x" by (blast dest: plus_sound)
  from r3 obtain c4 s4 where e4: "s3 = c4 # s4" "atom_ok ?f (Lit (CHR ''.'')) c4"
    and r4: "?k5 s4 None = Some x" by (blast dest: atom_sound)
  from r4 obtain t r where e5: "s4 = t @ r" "2 \<le> length t" "\<forall>c \<in> set t. atom_ok ?f cls_alpha c"
    and r5: "?k6 r None = Some x" by (blast dest: at_least_two_sound)
  from r5 have e6: "r = [] \<or> r = [CHR 0x0A]" by (simp split: if_splits)
  from e2(2) e4(2) have "c2 = CHR ''@''" "c4 = CHR ''.''" by (simp_all add: no_flags_def)
  with e1 e2 e3 e4 e5 e6 show ?thesis by auto
qed

lemma cls_local_not_at: "atom_ok f cls_local c \<Longrightarrow> c \<noteq> CHR ''@''"
  by (auto simp: cls_local_def in_range_def code_def)

lemma cls_label_not_dot: "atom_ok f cls_label c \<Longrightarrow> c \<noteq> CHR ''.''"
  by (auto simp: cls_label_def in_range_def code_def)

lemma cls_alpha_not_dot: "atom_ok f cls_alpha c \<Longrightarrow> c \<noteq> CHR ''.''"
  by (auto simp: cls_alpha_def in_range_def code_def)

lemma email_strict_one_dot:
  assumes "re_match no_flags rx_email_strict e"
  shows "dots (domain_part e) = 1"
proof -
  from email_strict_shape [OF assms] obtain l d t r where
    e: "e = l @ CHR ''@'' # d @ CHR ''.'' # t @ r"
    and l: "\<forall>c \<in> set l. atom_ok no_flags cls_local c"
    and d: "\<forall>c \<in> set d. atom_ok no_flags cls_label c"
    and t: "\<forall>c \<in> set t. atom_ok no_flags cls_alpha c"
    and r: "r = [] \<or> r = [CHR 0x0A]" by blast
  from l have "\<forall>c \<in> set l. c \<noteq> CHR ''@''" by (blast dest: cls_local_not_at)
  then have "dropWhile (\<lambda>c. c \<noteq> CHR ''@'') e = CHR ''@'' # d @ CHR ''.'' # t @ r"
    unfolding e by (simp add: dropWhile_append3)
  then have dp: "domain_part e = d @ CHR ''.'' # t @ r" by (simp add: domain_part_def)
  from d have fd: "filter (\<lambda>c. c = CHR ''.'') d = []"
    by (auto simp: filter_empty_conv dest: cls_label_not_dot)
  from t have ft: "filter (\<lambda>c. c = CHR ''.'') t = []"
    by (auto simp: filter_empty_conv dest: cls_alpha_not_dot)
  from r have fr: "filter (\<lambda>c. c = CHR ''.'') r = []" by auto
  show ?thesis unfolding dp dots_def by (simp add: fd ft fr)
qed





lemma clean_email_valid:
  assumes "e \<in> set (clean_email c)"
  shows "e = lower c \<and> \<not> (\<exists>ext \<in> set asset_exts. endswith e ext) \<and> CHR ''@'' \<in> set e
         \<and> re_match no_flags rx_email_strict e"
  using assms unfolding clean_email_def Let_def by (simp split: if_splits)

lemma clean_emails_valid:
  assumes ok: "set_order_ok ls" and e: "e \<in> set (clean_emails ls cands)"
  shows "\<exists>c \<in> set cands. e \<in> set (clean_email c)"
proof -
  from ok have "set (ls (concat (map clean_email cands))) = set (concat (map clean_email cands))"
    by (simp add: set_order_ok_def)
  with e show ?thesis by (auto simp: clean_emails_def)
qed

lemma fst_extract:
  "fst (extract_contact_info ls html mp) =
     clean_emails ls (re_findall no_flags rx_email_raw (re_sub script_flags rx_script_style [] html))"
  by (simp add: extract_contact_info_def Let_def)


lemma startswith_append: "startswith (p @ s) p"
  by (simp add: startswith_def)

lemma normalize_has_scheme:
  "startswith (normalize v) ''http://'' \<or> startswith (normalize v) ''https://''"
proof (cases "startswith v ''http://'' \<or> startswith v ''https://''")
  case True
  then have "normalize v = v" unfolding normalize_def by (rule if_P)
  with True show ?thesis by simp
next
  case False
  then have "normalize v = ''https://'' @ v" unfolding normalize_def by (rule if_not_P)
  then show ?thesis using startswith_append [of "''https://''" v] by simp
qed

lemma set_order_ok_remdups: "set_order_ok remdups"
  by (simp add: set_order_ok_def)

lemma match_category_other:
  assumes "\<forall>(category, keywords) \<in> set table. \<forall>kw \<in> set keywords. \<not> contains text kw"
  shows "match_category table text = ''Other''"
  using assms by (induction table) auto

lemma match_category_first:
  assumes "\<forall>(c, kws) \<in> set before. \<forall>kw \<in> set kws. \<not> contains text kw"
    and "\<exists>kw \<in> set keywords. contains text kw"
  shows "match_category (before @ (category, keywords) # rest) text = category"
  using assms by (induction before) auto

lemma match_category_label:
  "match_category table s \<in> set (map fst table) \<union> {''Other''}"
proof (induction table)
  case Nil
  then show ?case by simp
next
  case (Cons p table)
  obtain c kws where p: "p = (c, kws)" by (cases p)
  show ?case
  proof (cases "\<exists>kw \<in> set kws. contains s kw")
    case True
    then have "match_category (p # table) s = c" unfolding p by simp
    then show ?thesis unfolding p by simp
  next
    case False
    then have "match_category (p # table) s = match_category table s" unfolding p by simp
    with Cons.IH show ?thesis by auto
  qed
qed

lemma extract_category_label: "extract_category soup \<in> set (map fst CATEGORY_KEYWORDS)"
proof -
  have "''Other'' \<in> set (map fst CATEGORY_KEYWORDS)" by (simp add: CATEGORY_KEYWORDS_def)
  moreover have "x \<in> A" if "x \<in> A \<union> {y}" and "y \<in> A" for x y :: string and A
    using that by blast
  ultimately show ?thesis
    unfolding extract_category_def
    using match_category_label [of CATEGORY_KEYWORDS "extract_category_text soup"] by iprover
qed

lemma fetch_html_cases:
  "fetch_html w url timeout =
     (case requests_get w url browser_headers timeout of
        Inl e \<Rightarrow> Inl e
      | Inr resp \<Rightarrow>
          if 400 \<le> status_code resp \<and> status_code resp < 600
          then Inl (Exn ''HTTPError'' (http_error_msg resp)) else Inr (resp_text resp))"
  by (simp add: fetch_html_def browser_headers_def raise_for_status_def split: sum.splits)

lemma scrape_website_Website: "Website (scrape_website w url max_phones) = url"
  by (simp add: scrape_website_def scrape_website_try_def Let_def split: sum.splits prod.splits)




lemma normalize_changes:
  assumes "\<not> (startswith u ''http://'' \<or> startswith u ''https://'')"
  shows "normalize u = ''https://'' @ u" and "normalize u \<noteq> u"
proof -
  from assms show n: "normalize u = ''https://'' @ u" unfolding normalize_def by (rule if_not_P)
  have "length (''https://'' @ u) \<noteq> length u" by simp
  then have "''https://'' @ u \<noteq> u" by metis
  with n show "normalize u \<noteq> u" by simp
qed

lemma normalize_keeps:
  assumes "startswith u ''http://'' \<or> startswith u ''https://''"
  shows "normalize u = u"
  using assms unfolding normalize_def by (rule if_P)

section \<open>The claims\<close>

text \<open>
  C1. The markup \<^verbatim>\<open>Contact us at Info@Shop.com or call +91 98765 43210\<close> has no script or
  style block; the claim is that the extractor gives the address \<open>info@shop.com\<close> and
  the phone list \<open>["9876543210"]\<close>. Run on this markup with \<open>max_phones = 3\<close>, the code
  gives the address, and an empty phone list: the phone pattern matches the whole of
  \<^verbatim>\<open>+91 98765 43210\<close>, removing the non-digits leaves the twelve digits
  \<open>919876543210\<close>, and \<open>clean_phones\<close> keeps texts of ten digits only.
\<close>

theorem scenario_a_phone_lost:
  "re_findall no_flags rx_phone_raw ''Contact us at Info@Shop.com or call +91 98765 43210''
     = [''+91 98765 43210'']
   \<and> re_sub no_flags (Atom NonDigit) [] ''+91 98765 43210'' = ''919876543210''
   \<and> extract_contact_info remdups ''Contact us at Info@Shop.com or call +91 98765 43210'' 3
     = ([''info@shop.com''], [])"
  by code_simp

text \<open>
  C2. The claim is that the classifier gives a label of the taxonomy Skincare, Hair Care,
  Footwear, Fragrances, Personal Care, Clothing, Electronics, Jewelry, Furniture,
  Food & Beverages, Other. For a description that mentions perfume the code gives the
  label \<open>Fragnances\<close>, the key of the dictionary as it is spelt there, which is not a
  label of that taxonomy. (The label is always a key of the dictionary, the first one in
  its order with a keyword in the text, and \<open>Other\<close> when there is none.)
\<close>

theorem perfume_label_misspelt:
  "extract_category
     [\<lparr>tag_name = ''meta'',
       tag_attrs = [(''name'', ''description''), (''content'', ''Fine perfume for all'')],
       tag_string = None\<rparr>] = ''Fragnances''
   \<and> ''Fragnances'' \<notin> set spec_taxonomy"
  by code_simp

text \<open>
  C3, as stated, fails: for a document whose \<open>meta name=description\<close> tag has no content,
  whose \<open>og:description\<close> says Shampoo and whose title is Shoes, the code classifies the
  title, where the stated priority gives the \<open>og:description\<close>.
\<close>

theorem bare_description_counterexample:
  "extract_category_text soup_bare_description = ''shoes''
   \<and> spec_category_text soup_bare_description = ''shampoo''
   \<and> extract_category soup_bare_description = ''Footwear''"
  by code_simp

text \<open>
  C3, as amended. The classifier looks at one meta tag: the first \<open>meta name=description\<close>
  tag of the document, or, only when the document has no such tag, the first
  \<open>meta property=og:description\<close> tag. When that tag has a content that is not empty, the
  lower-cased content is the text to classify. In every other case the text is the
  lower-cased title text when there is one, and the empty text otherwise; so a description
  tag without usable content sends the classifier to the title, past \<open>og:description\<close>.
\<close>

theorem category_text_priority:
  "(\<forall>t c. soup_find soup ''meta'' ''name'' ''description'' = Some t
          \<and> truthy (tag_get t ''content'') = Some c
          \<longrightarrow> extract_category_text soup = lower c)
   \<and> (\<forall>t c. soup_find soup ''meta'' ''name'' ''description'' = None
          \<and> soup_find soup ''meta'' ''property'' ''og:description'' = Some t
          \<and> truthy (tag_get t ''content'') = Some c
          \<longrightarrow> extract_category_text soup = lower c)
   \<and> (\<forall>t. soup_find soup ''meta'' ''name'' ''description'' = Some t
          \<and> truthy (tag_get t ''content'') = None
          \<longrightarrow> extract_category_text soup = title_text soup)
   \<and> (\<forall>t. soup_find soup ''meta'' ''name'' ''description'' = None
          \<and> soup_find soup ''meta'' ''property'' ''og:description'' = Some t
          \<and> truthy (tag_get t ''content'') = None
          \<longrightarrow> extract_category_text soup = title_text soup)
   \<and> (soup_find soup ''meta'' ''name'' ''description'' = None
          \<and> soup_find soup ''meta'' ''property'' ''og:description'' = None
          \<longrightarrow> extract_category_text soup = title_text soup)"
  by (simp add: extract_category_text_def title_text_def)

theorem category_text_priority_witness:
  "soup_find soup_bare_description ''meta'' ''name'' ''description''
     = Some \<lparr>tag_name = ''meta'', tag_attrs = [(''name'', ''description'')], tag_string = None\<rparr>
   \<and> truthy (tag_get \<lparr>tag_name = ''meta'', tag_attrs = [(''name'', ''description'')],
                       tag_string = None\<rparr> ''content'') = None
   \<and> extract_category_text soup_bare_description = title_text soup_bare_description
   \<and> title_text soup_bare_description = ''shoes''"
proof -
  have f: "soup_find soup_bare_description ''meta'' ''name'' ''description''
     = Some \<lparr>tag_name = ''meta'', tag_attrs = [(''name'', ''description'')], tag_string = None\<rparr>"
    by code_simp
  have t: "truthy (tag_get \<lparr>tag_name = ''meta'', tag_attrs = [(''name'', ''description'')],
                       tag_string = None\<rparr> ''content'') = None"
    by code_simp
  have v: "title_text soup_bare_description = ''shoes''" by code_simp
  from category_text_priority [of soup_bare_description] f t
  have "extract_category_text soup_bare_description = title_text soup_bare_description" by blast
  with f t v show ?thesis by blast
qed

text \<open>
  C4, as stated, fails: a final answer with the status 304 is not one of the 2xx statuses,
  yet \<open>raise_for_status\<close> lets it pass; the record then has the address found in the body
  and the category of the page, where the claim has a failure record.
\<close>

theorem status_304_counterexample:
  "requests_get other_world ''https://cached.example'' browser_headers 15
     = Inr \<lparr>status_code = 304, resp_text = ''Mail a@b.co'', http_error_msg = []\<rparr>
   \<and> scrape_website other_world ''https://cached.example'' 3
       = \<lparr>Website = ''https://cached.example'', Emails = ''a@b.co'', Phone_Numbers = [],
          Category = ''Other''\<rparr>"
  by code_simp

text \<open>
  C4, as amended. \<open>scrape_website\<close> gives a record for every world, URL and
  \<open>max_phones\<close>. When \<open>requests.get\<close> raises (a connection error, a timeout), when the
  final answer has a status from 400 to 599, which are the statuses that
  \<open>raise_for_status\<close> rejects, or when both parsers raise, the record has the URL, empty
  \<open>Emails\<close> and \<open>Phone Numbers\<close>, and \<open>Failed to fetch: \<close> followed by the text of the
  exception as \<open>Category\<close>. In every other case, also for a final answer with another
  status outside 2xx, the record has the addresses and the phones joined with \<open>", "\<close>:
  those of the page, or, for a list that is empty when the page has no address, those of
  the contact page.
\<close>

theorem scrape_website_never_raises:
  "(\<forall>e. requests_get w url browser_headers 15 = Inl e
        \<longrightarrow> scrape_website w url max_phones = failure_record url e)
   \<and> (\<forall>resp. requests_get w url browser_headers 15 = Inr resp
          \<and> 400 \<le> status_code resp \<and> status_code resp < 600
        \<longrightarrow> scrape_website w url max_phones
              = failure_record url (Exn ''HTTPError'' (http_error_msg resp)))
   \<and> (\<forall>resp e1 e. requests_get w url browser_headers 15 = Inr resp
          \<and> \<not> (400 \<le> status_code resp \<and> status_code resp < 600)
          \<and> bs_lxml w (resp_text resp) = Inl e1
          \<and> bs_html_parser w (resp_text resp) = Inl e
        \<longrightarrow> scrape_website w url max_phones = failure_record url e)
   \<and> (\<forall>resp soup. requests_get w url browser_headers 15 = Inr resp
          \<and> \<not> (400 \<le> status_code resp \<and> status_code resp < 600)
          \<and> get_soup w (resp_text resp) = Inr soup
        \<longrightarrow> (\<exists>emails phones.
               scrape_website w url max_phones =
                 \<lparr>Website = url, Emails = join '', '' emails,
                  Phone_Numbers = join '', '' phones, Category = extract_category soup\<rparr>
               \<and> emails =
                   (if fst (extract_contact_info (list_set w) (resp_text resp) max_phones) \<noteq> []
                    then fst (extract_contact_info (list_set w) (resp_text resp) max_phones)
                    else fst (scrape_contact_page w url max_phones))
               \<and> phones =
                   (if fst (extract_contact_info (list_set w) (resp_text resp) max_phones) \<noteq> []
                       \<or> snd (extract_contact_info (list_set w) (resp_text resp) max_phones) \<noteq> []
                    then snd (extract_contact_info (list_set w) (resp_text resp) max_phones)
                    else snd (scrape_contact_page w url max_phones))))"
proof -
  have a: "scrape_website w url max_phones = failure_record url e"
    if "requests_get w url browser_headers 15 = Inl e" for e
    using that
    by (simp add: scrape_website_def scrape_website_try_def failure_record_def fetch_html_cases)
  have b: "scrape_website w url max_phones
              = failure_record url (Exn ''HTTPError'' (http_error_msg resp))"
    if "requests_get w url browser_headers 15 = Inr resp"
      and "400 \<le> status_code resp \<and> status_code resp < 600" for resp
    using that
    by (simp add: scrape_website_def scrape_website_try_def failure_record_def fetch_html_cases)
  have c: "scrape_website w url max_phones = failure_record url e"
    if "requests_get w url browser_headers 15 = Inr resp"
      and "\<not> (400 \<le> status_code resp \<and> status_code resp < 600)"
      and "bs_lxml w (resp_text resp) = Inl e1"
      and "bs_html_parser w (resp_text resp) = Inl e" for resp e1 e
  proof -
    from that(1,2) have "fetch_html w url 15 = Inr (resp_text resp)"
      by (simp add: fetch_html_cases)
    moreover from that(3,4) have "get_soup w (resp_text resp) = Inl e"
      by (simp add: get_soup_def)
    ultimately show ?thesis
      by (simp add: scrape_website_def scrape_website_try_def failure_record_def)
  qed
  have d: "\<exists>emails phones.
               scrape_website w url max_phones =
                 \<lparr>Website = url, Emails = join '', '' emails,
                  Phone_Numbers = join '', '' phones, Category = extract_category soup\<rparr>
               \<and> emails =
                   (if fst (extract_contact_info (list_set w) (resp_text resp) max_phones) \<noteq> []
                    then fst (extract_contact_info (list_set w) (resp_text resp) max_phones)
                    else fst (scrape_contact_page w url max_phones))
               \<and> phones =
                   (if fst (extract_contact_info (list_set w) (resp_text resp) max_phones) \<noteq> []
                       \<or> snd (extract_contact_info (list_set w) (resp_text resp) max_phones) \<noteq> []
                    then snd (extract_contact_info (list_set w) (resp_text resp) max_phones)
                    else snd (scrape_contact_page w url max_phones))"
    if "requests_get w url browser_headers 15 = Inr resp"
      and "\<not> (400 \<le> status_code resp \<and> status_code resp < 600)"
      and "get_soup w (resp_text resp) = Inr soup" for resp soup
  proof -
    from that(1,2) have "fetch_html w url 15 = Inr (resp_text resp)"
      by (simp add: fetch_html_cases)
    with that(3) show ?thesis
      by (auto simp: scrape_website_def scrape_website_try_def or_list_def split: prod.splits)
  qed
  from a b c d show ?thesis by blast
qed

theorem scrape_website_never_raises_witness:
  "requests_get demo_world ''https://nowhere.example'' browser_headers 15
     = Inl (Exn ''ConnectTimeout'' ''timed out'')
   \<and> scrape_website demo_world ''https://nowhere.example'' 3
       = \<lparr>Website = ''https://nowhere.example'', Emails = [], Phone_Numbers = [],
          Category = ''Failed to fetch: timed out''\<rparr>
   \<and> requests_get demo_world ''https://gone.example'' browser_headers 15
       = Inr \<lparr>status_code = 404, resp_text = [], http_error_msg = ''404 Client Error''\<rparr>
   \<and> scrape_website demo_world ''https://gone.example'' 3
       = \<lparr>Website = ''https://gone.example'', Emails = [], Phone_Numbers = [],
          Category = ''Failed to fetch: 404 Client Error''\<rparr>
   \<and> requests_get demo_world ''https://broken.example'' browser_headers 15
       = Inr \<lparr>status_code = 200, resp_text = ''<<'', http_error_msg = []\<rparr>
   \<and> bs_lxml demo_world ''<<'' = Inl (Exn ''ParserError'' ''bad input'')
   \<and> bs_html_parser demo_world ''<<'' = Inl (Exn ''ParserError'' ''bad input'')
   \<and> scrape_website demo_world ''https://broken.example'' 3
       = \<lparr>Website = ''https://broken.example'', Emails = [], Phone_Numbers = [],
          Category = ''Failed to fetch: bad input''\<rparr>
   \<and> requests_get other_world ''https://two.example'' browser_headers 15
       = Inr \<lparr>status_code = 200, resp_text = page_two, http_error_msg = []\<rparr>
   \<and> get_soup other_world page_two = Inr []
   \<and> scrape_website other_world ''https://two.example'' 3
       = \<lparr>Website = ''https://two.example'', Emails = ''info@shop.com, sales@shop.com'',
          Phone_Numbers = ''9876543210, 9876543211'', Category = ''Other''\<rparr>"
proof -
  have q1: "requests_get demo_world ''https://nowhere.example'' browser_headers 15
     = Inl (Exn ''ConnectTimeout'' ''timed out'')" by code_simp
  have q2: "requests_get demo_world ''https://gone.example'' browser_headers 15
       = Inr \<lparr>status_code = 404, resp_text = [], http_error_msg = ''404 Client Error''\<rparr>"
    by code_simp
  have q3: "requests_get demo_world ''https://broken.example'' browser_headers 15
       = Inr \<lparr>status_code = 200, resp_text = ''<<'', http_error_msg = []\<rparr>" by code_simp
  have l3: "bs_lxml demo_world ''<<'' = Inl (Exn ''ParserError'' ''bad input'')" by code_simp
  have h3: "bs_html_parser demo_world ''<<'' = Inl (Exn ''ParserError'' ''bad input'')"
    by code_simp
  have q4: "requests_get other_world ''https://two.example'' browser_headers 15
       = Inr \<lparr>status_code = 200, resp_text = page_two, http_error_msg = []\<rparr>" by code_simp
  have g4: "get_soup other_world page_two = Inr []" by code_simp
  note t1 = scrape_website_never_raises [of demo_world "''https://nowhere.example''" 3]
  from t1 have "\<forall>e. requests_get demo_world ''https://nowhere.example'' browser_headers 15 = Inl e
        \<longrightarrow> scrape_website demo_world ''https://nowhere.example'' 3
              = failure_record ''https://nowhere.example'' e" by (rule conjunct1)
  with q1 have "scrape_website demo_world ''https://nowhere.example'' 3
       = failure_record ''https://nowhere.example'' (Exn ''ConnectTimeout'' ''timed out'')"
    by blast
  then have r1: "scrape_website demo_world ''https://nowhere.example'' 3
       = \<lparr>Website = ''https://nowhere.example'', Emails = [], Phone_Numbers = [],
          Category = ''Failed to fetch: timed out''\<rparr>"
    by (simp add: failure_record_def)
  note t2 = scrape_website_never_raises [of demo_world "''https://gone.example''" 3]
  from t2 have "\<forall>resp. requests_get demo_world ''https://gone.example'' browser_headers 15 = Inr resp
          \<and> 400 \<le> status_code resp \<and> status_code resp < 600
        \<longrightarrow> scrape_website demo_world ''https://gone.example'' 3
              = failure_record ''https://gone.example'' (Exn ''HTTPError'' (http_error_msg resp))"
    by (rule conjunct2 [THEN conjunct1])
  from this [rule_format, of "\<lparr>status_code = 404, resp_text = [],
                               http_error_msg = ''404 Client Error''\<rparr>"] q2
  have r2: "scrape_website demo_world ''https://gone.example'' 3
       = \<lparr>Website = ''https://gone.example'', Emails = [], Phone_Numbers = [],
          Category = ''Failed to fetch: 404 Client Error''\<rparr>"
    by (simp add: failure_record_def)
  note t3 = scrape_website_never_raises [of demo_world "''https://broken.example''" 3]
  from t3 have "\<forall>resp e1 e. requests_get demo_world ''https://broken.example'' browser_headers 15
            = Inr resp
          \<and> \<not> (400 \<le> status_code resp \<and> status_code resp < 600)
          \<and> bs_lxml demo_world (resp_text resp) = Inl e1
          \<and> bs_html_parser demo_world (resp_text resp) = Inl e
        \<longrightarrow> scrape_website demo_world ''https://broken.example'' 3
              = failure_record ''https://broken.example'' e"
    by (rule conjunct2 [THEN conjunct2, THEN conjunct1])
  from this [rule_format, of "\<lparr>status_code = 200, resp_text = ''<<'', http_error_msg = []\<rparr>"
                             "Exn ''ParserError'' ''bad input''" "Exn ''ParserError'' ''bad input''"]
    q3 l3 h3
  have r3: "scrape_website demo_world ''https://broken.example'' 3
       = \<lparr>Website = ''https://broken.example'', Emails = [], Phone_Numbers = [],
          Category = ''Failed to fetch: bad input''\<rparr>"
    by (simp add: failure_record_def)
  note t4 = scrape_website_never_raises [of other_world "''https://two.example''" 3]
  have x: "extract_contact_info (list_set other_world) page_two 3
             = ([''info@shop.com'', ''sales@shop.com''], [''9876543210'', ''9876543211''])"
    by code_simp
  have c: "extract_category [] = ''Other''" by code_simp
  from t4 have "\<forall>resp soup. requests_get other_world ''https://two.example'' browser_headers 15
            = Inr resp
          \<and> \<not> (400 \<le> status_code resp \<and> status_code resp < 600)
          \<and> get_soup other_world (resp_text resp) = Inr soup
        \<longrightarrow> (\<exists>emails phones.
               scrape_website other_world ''https://two.example'' 3 =
                 \<lparr>Website = ''https://two.example'', Emails = join '', '' emails,
                  Phone_Numbers = join '', '' phones, Category = extract_category soup\<rparr>
               \<and> emails =
                   (if fst (extract_contact_info (list_set other_world) (resp_text resp) 3) \<noteq> []
                    then fst (extract_contact_info (list_set other_world) (resp_text resp) 3)
                    else fst (scrape_contact_page other_world ''https://two.example'' 3))
               \<and> phones =
                   (if fst (extract_contact_info (list_set other_world) (resp_text resp) 3) \<noteq> []
                       \<or> snd (extract_contact_info (list_set other_world) (resp_text resp) 3) \<noteq> []
                    then snd (extract_contact_info (list_set other_world) (resp_text resp) 3)
                    else snd (scrape_contact_page other_world ''https://two.example'' 3)))"
    by (rule conjunct2 [THEN conjunct2, THEN conjunct2])
  from this [rule_format, of "\<lparr>status_code = 200, resp_text = page_two, http_error_msg = []\<rparr>"
                             "[]"] q4 g4
  have r4: "scrape_website other_world ''https://two.example'' 3
       = \<lparr>Website = ''https://two.example'', Emails = ''info@shop.com, sales@shop.com'',
          Phone_Numbers = ''9876543210, 9876543211'', Category = ''Other''\<rparr>"
    by (simp add: x c)
  from q1 r1 q2 r2 q3 l3 h3 r3 q4 g4 r4 show ?thesis by blast
qed

text \<open>
  C5. When the page has been fetched and parsed: if it has an address, the record is made of
  the addresses and the phones of the page alone, whatever the network holds at the contact
  URL; and if it has a phone, the phones of the record are those of the page, also when the
  contact page is read for want of an address.
\<close>

theorem contact_fallback_keeps_primary:
  assumes "fetch_html w url 15 = Inr html" and "get_soup w html = Inr soup"
    and "extract_contact_info (list_set w) html max_phones = (emails, phones)"
  shows "(emails \<noteq> [] \<longrightarrow>
            scrape_website w url max_phones =
              \<lparr>Website = url, Emails = join '', '' emails, Phone_Numbers = join '', '' phones,
               Category = extract_category soup\<rparr>)
         \<and> (phones \<noteq> [] \<longrightarrow> Phone_Numbers (scrape_website w url max_phones) = join '', '' phones)"
  using assms
  by (auto simp: scrape_website_def scrape_website_try_def or_list_def split: prod.splits)

theorem contact_fallback_keeps_primary_witness:
  "fetch_html demo_world ''https://shop.example'' 15 = Inr page_home
   \<and> get_soup demo_world page_home = Inr soup_home
   \<and> extract_contact_info (list_set demo_world) page_home 3 = ([], [''9876543210''])
   \<and> scrape_contact_page demo_world ''https://shop.example'' 3
       = ([''info@shop.com''], [''9123456789''])
   \<and> Phone_Numbers (scrape_website demo_world ''https://shop.example'' 3) = ''9876543210''
   \<and> fetch_html demo_world ''https://shop.example/contact'' 15 = Inr page_contact
   \<and> get_soup demo_world page_contact = Inr []
   \<and> extract_contact_info (list_set demo_world) page_contact 3
       = ([''info@shop.com''], [''9123456789''])
   \<and> scrape_website demo_world ''https://shop.example/contact'' 3
       = \<lparr>Website = ''https://shop.example/contact'', Emails = ''info@shop.com'',
          Phone_Numbers = ''9123456789'', Category = ''Other''\<rparr>"
proof -
  have f1: "fetch_html demo_world ''https://shop.example'' 15 = Inr page_home" by code_simp
  have g1: "get_soup demo_world page_home = Inr soup_home" by code_simp
  have x1: "extract_contact_info (list_set demo_world) page_home 3 = ([], [''9876543210''])"
    by code_simp
  have c1: "scrape_contact_page demo_world ''https://shop.example'' 3
       = ([''info@shop.com''], [''9123456789''])" by code_simp
  have f2: "fetch_html demo_world ''https://shop.example/contact'' 15 = Inr page_contact"
    by code_simp
  have g2: "get_soup demo_world page_contact = Inr []" by code_simp
  have x2: "extract_contact_info (list_set demo_world) page_contact 3
       = ([''info@shop.com''], [''9123456789''])" by code_simp
  have k: "extract_category [] = ''Other''" by code_simp
  from contact_fallback_keeps_primary [OF f1 g1 x1]
  have r1: "Phone_Numbers (scrape_website demo_world ''https://shop.example'' 3) = ''9876543210''"
    by simp
  from contact_fallback_keeps_primary [OF f2 g2 x2]
  have r2: "scrape_website demo_world ''https://shop.example/contact'' 3
       = \<lparr>Website = ''https://shop.example/contact'', Emails = ''info@shop.com'',
          Phone_Numbers = ''9123456789'', Category = ''Other''\<rparr>"
    unfolding k by simp
  from f1 g1 x1 c1 r1 f2 g2 x2 r2 show ?thesis by blast
qed




text \<open>
  C7. For every markup, the extracted addresses are pairwise different, and each of them
  is equal to its own lower-casing, has no letter from \<open>A\<close> to \<open>Z\<close>, contains \<open>@\<close>, and
  ends in none of \<open>.js .css .png .jpg .jpeg .gif .svg\<close>. The order of \<open>list(set(...))\<close> is
  any order that lists each element once.
\<close>

theorem emails_lower_distinct_no_asset:
  assumes "set_order_ok ls"
  shows "(let emails = fst (extract_contact_info ls html max_phones)
          in distinct emails
             \<and> (\<forall>e \<in> set emails. lower e = e
                   \<and> (\<forall>c \<in> set e. \<not> in_range (CHR ''A'') (CHR ''Z'') c)
                   \<and> CHR ''@'' \<in> set e
                   \<and> (\<forall>ext \<in> set [''.js'', ''.css'', ''.png'', ''.jpg'', ''.jpeg'', ''.gif'', ''.svg''].
                         \<not> endswith e ext)))"
proof -
  define emails where "emails = fst (extract_contact_info ls html max_phones)"
  have dist: "distinct emails"
    using assms by (simp add: emails_def fst_extract clean_emails_def set_order_ok_def)
  have each: "\<forall>e \<in> set emails. lower e = e
                   \<and> (\<forall>c \<in> set e. \<not> in_range (CHR ''A'') (CHR ''Z'') c)
                   \<and> CHR ''@'' \<in> set e
                   \<and> (\<forall>ext \<in> set [''.js'', ''.css'', ''.png'', ''.jpg'', ''.jpeg'', ''.gif'', ''.svg''].
                         \<not> endswith e ext)"
  proof
    fix e assume "e \<in> set emails"
    then obtain c where "e \<in> set (clean_email c)"
      unfolding emails_def fst_extract using clean_emails_valid [OF assms] by blast
    from clean_email_valid [OF this] have v: "e = lower c"
      "\<not> (\<exists>ext \<in> set asset_exts. endswith e ext)" "CHR ''@'' \<in> set e" by blast+
    from v(1) have lo: "lower e = e" by (simp add: lower_idem)
    then have "\<forall>c \<in> set e. \<not> in_range (CHR ''A'') (CHR ''Z'') c"
      by (blast dest: lower_fixed_no_capital)
    with lo v(2,3) show "lower e = e
                   \<and> (\<forall>c \<in> set e. \<not> in_range (CHR ''A'') (CHR ''Z'') c)
                   \<and> CHR ''@'' \<in> set e
                   \<and> (\<forall>ext \<in> set [''.js'', ''.css'', ''.png'', ''.jpg'', ''.jpeg'', ''.gif'', ''.svg''].
                         \<not> endswith e ext)"
      unfolding asset_exts_def by blast
  qed
  from dist each show ?thesis unfolding Let_def emails_def [symmetric] by blast
qed

theorem emails_lower_distinct_no_asset_witness:
  "set_order_ok remdups
   \<and> fst (extract_contact_info remdups ''Mail Info@Shop.com, info@shop.com or see logo@2x.png'' 3)
       = [''info@shop.com'']
   \<and> distinct (fst (extract_contact_info remdups
         ''Mail Info@Shop.com, info@shop.com or see logo@2x.png'' 3))
   \<and> lower ''info@shop.com'' = ''info@shop.com''
   \<and> CHR ''@'' \<in> set ''info@shop.com''
   \<and> \<not> endswith ''info@shop.com'' ''.png''"
proof -
  have v: "fst (extract_contact_info remdups ''Mail Info@Shop.com, info@shop.com or see logo@2x.png'' 3)
       = [''info@shop.com'']" by code_simp
  from emails_lower_distinct_no_asset [OF set_order_ok_remdups,
         where html = "''Mail Info@Shop.com, info@shop.com or see logo@2x.png''" and max_phones = 3]
  have d: "distinct (fst (extract_contact_info remdups
         ''Mail Info@Shop.com, info@shop.com or see logo@2x.png'' 3))"
    and a: "\<forall>e \<in> set (fst (extract_contact_info remdups
         ''Mail Info@Shop.com, info@shop.com or see logo@2x.png'' 3)).
            lower e = e \<and> CHR ''@'' \<in> set e \<and> \<not> endswith e ''.png''"
    unfolding Let_def by auto
  from a have "lower ''info@shop.com'' = ''info@shop.com'' \<and> CHR ''@'' \<in> set ''info@shop.com''
      \<and> \<not> endswith ''info@shop.com'' ''.png''"
    unfolding v by simp
  with set_order_ok_remdups v d show ?thesis by blast
qed



text \<open>
  C9, as stated, fails: \<open>Https://shop.example\<close> and \<open>ftp://shop.example\<close> have a scheme,
  and \<open>normalize\<close> puts \<open>https://\<close> in front of both instead of returning them as they
  are. And a URL reaches \<open>scrape_website\<close> without passing \<open>normalize\<close> on the way of
  the company names: a search that gives the link \<open>shop.example\<close> hands exactly this text
  over.
\<close>

theorem scheme_counterexample:
  "spec_has_scheme ''Https://shop.example''
   \<and> normalize ''Https://shop.example'' = ''https://Https://shop.example''
   \<and> spec_has_scheme ''ftp://shop.example''
   \<and> normalize ''ftp://shop.example'' = ''https://ftp://shop.example''
   \<and> get_website_from_search other_world ''Bare'' = Some ''shop.example''
   \<and> Website (scrape_company other_world 3 ''Bare'') = ''shop.example''
   \<and> \<not> startswith ''shop.example'' ''http://''
   \<and> \<not> startswith ''shop.example'' ''https://''"
  by code_simp

text \<open>
  C9, as amended. \<open>normalize\<close> returns its input as it is exactly when the input
  starts with \<open>http://\<close> or \<open>https://\<close>, written in small letters, and puts
  \<open>https://\<close> in front of it in every other case, also when the input has another
  scheme or writes the scheme with capitals. The result starts with \<open>http://\<close> or
  \<open>https://\<close> and is left as it is by a second \<open>normalize\<close>; so every URL that the loop
  over the list of URLs hands to \<open>scrape_website\<close>, which is the \<open>Website\<close> of the record,
  starts with \<open>http://\<close> or \<open>https://\<close>. On the way of the company names the link of
  the search is handed to \<open>scrape_website\<close> as it is.
\<close>

theorem normalize_scheme:
  "(normalize u = u \<longleftrightarrow> startswith u ''http://'' \<or> startswith u ''https://'')
   \<and> (\<not> (startswith u ''http://'' \<or> startswith u ''https://'') \<longrightarrow> normalize u = ''https://'' @ u)
   \<and> (startswith (normalize u) ''http://'' \<or> startswith (normalize u) ''https://'')
   \<and> normalize (normalize u) = normalize u
   \<and> map Website (scrape_urls w urls_to_scrape max_phones) = map normalize urls_to_scrape
   \<and> (\<forall>r \<in> set (scrape_urls w urls_to_scrape max_phones).
         startswith (Website r) ''http://'' \<or> startswith (Website r) ''https://'')
   \<and> (\<forall>website. get_website_from_search w company = Some website \<and> website \<noteq> []
         \<longrightarrow> Website (scrape_company w max_phones company) = website)"
proof -
  have a: "normalize u = u \<longleftrightarrow> startswith u ''http://'' \<or> startswith u ''https://''"
    using normalize_changes(2) [of u] normalize_keeps [of u] by blast
  have b: "\<not> (startswith u ''http://'' \<or> startswith u ''https://'') \<longrightarrow> normalize u = ''https://'' @ u"
    using normalize_changes(1) [of u] by blast
  have c: "startswith (normalize u) ''http://'' \<or> startswith (normalize u) ''https://''"
    by (rule normalize_has_scheme)
  have d: "normalize (normalize u) = normalize u"
    using c by (rule normalize_keeps)
  have e: "map Website (scrape_urls w urls_to_scrape max_phones) = map normalize urls_to_scrape"
    by (simp add: scrape_urls_def scrape_website_Website comp_def)
  have f: "\<forall>r \<in> set (scrape_urls w urls_to_scrape max_phones).
         startswith (Website r) ''http://'' \<or> startswith (Website r) ''https://''"
  proof
    fix r assume "r \<in> set (scrape_urls w urls_to_scrape max_phones)"
    then have "Website r \<in> set (map Website (scrape_urls w urls_to_scrape max_phones))" by simp
    then obtain v where "Website r = normalize v" unfolding e by auto
    with normalize_has_scheme [of v]
    show "startswith (Website r) ''http://'' \<or> startswith (Website r) ''https://''" by simp
  qed
  have g: "\<forall>website. get_website_from_search w company = Some website \<and> website \<noteq> []
         \<longrightarrow> Website (scrape_company w max_phones company) = website"
    by (simp add: scrape_company_def scrape_website_Website Let_def)
  from a b c d e f g show ?thesis by blast
qed

theorem normalize_scheme_witness:
  "\<not> startswith ''shop.example'' ''http://''
   \<and> \<not> startswith ''shop.example'' ''https://''
   \<and> normalize ''shop.example'' = ''https://shop.example''
   \<and> startswith ''http://shop.example'' ''http://''
   \<and> normalize ''http://shop.example'' = ''http://shop.example''
   \<and> map Website (scrape_urls demo_world [''shop.example'', ''gone.example''] 3)
       = [''https://shop.example'', ''https://gone.example'']
   \<and> scrape_website demo_world ''https://gone.example'' 3
       \<in> set (scrape_urls demo_world [''shop.example'', ''gone.example''] 3)
   \<and> startswith (Website (scrape_website demo_world ''https://gone.example'' 3)) ''https://''
   \<and> get_website_from_search demo_world ''Shop'' = Some ''https://shop.example''
   \<and> Website (scrape_company demo_world 3 ''Shop'') = ''https://shop.example''"
proof -
  have n1: "\<not> startswith ''shop.example'' ''http://''" by code_simp
  have n2: "\<not> startswith ''shop.example'' ''https://''" by code_simp
  have y: "startswith ''http://shop.example'' ''http://''" by code_simp
  have m: "map normalize [''shop.example'', ''gone.example'']
       = [''https://shop.example'', ''https://gone.example'']" by code_simp
  have g: "\<not> startswith ''https://gone.example'' ''http://''" by code_simp
  note t1 = normalize_scheme [of "''shop.example''" demo_world "[''shop.example'', ''gone.example'']" 3 "''Shop''"]
  from t1 n1 n2 have "normalize ''shop.example'' = ''https://'' @ ''shop.example''" by blast
  then have r1: "normalize ''shop.example'' = ''https://shop.example''" by simp
  from t1 have e: "map Website (scrape_urls demo_world [''shop.example'', ''gone.example''] 3)
       = map normalize [''shop.example'', ''gone.example'']" by blast
  from t1 have f: "\<forall>r \<in> set (scrape_urls demo_world [''shop.example'', ''gone.example''] 3).
         startswith (Website r) ''http://'' \<or> startswith (Website r) ''https://''" by blast
  note t2 = normalize_scheme [of "''http://shop.example''" demo_world "[]" 3 "''Shop''"]
  from t2 y have r2: "normalize ''http://shop.example'' = ''http://shop.example''" by blast
  have i: "scrape_website demo_world ''https://gone.example'' 3
       \<in> set (scrape_urls demo_world [''shop.example'', ''gone.example''] 3)"
    unfolding scrape_urls_def m by simp
  from f i have "startswith (Website (scrape_website demo_world ''https://gone.example'' 3)) ''http://''
      \<or> startswith (Website (scrape_website demo_world ''https://gone.example'' 3)) ''https://''"
    by blast
  then have r3: "startswith (Website (scrape_website demo_world ''https://gone.example'' 3)) ''https://''"
    using g by (simp add: scrape_website_Website)
  have k: "get_website_from_search demo_world ''Shop'' = Some ''https://shop.example''"
    by code_simp
  from t1 k have r4: "Website (scrape_company demo_world 3 ''Shop'') = ''https://shop.example''"
    by simp
  from n1 n2 r1 y r2 e [unfolded m] i r3 k r4 show ?thesis by blast
qed

text \<open>
  C10. An address that passes \<open>clean_emails\<close> has exactly one dot after its \<open>@\<close>: a
  candidate whose lower-cased text has two dots or more after the first \<open>@\<close>, such as
  \<open>user@mail.example.com\<close>, is left out, since the pattern of the validation wants one
  label of letters, digits and hyphens, a dot, and two letters or more up to the end.
\<close>

theorem strict_email_one_dot_domain:
  assumes "set_order_ok ls"
  shows "(2 \<le> dots (domain_part (lower candidate)) \<longrightarrow> clean_emails ls [candidate] = [])
         \<and> (\<forall>e \<in> set (clean_emails ls candidates). dots (domain_part e) = 1)
         \<and> (\<forall>e \<in> set (fst (extract_contact_info ls html max_phones)). dots (domain_part e) = 1)"
proof -
  have one: "dots (domain_part e) = 1" if "e \<in> set (clean_emails ls cs)" for e cs
  proof -
    from clean_emails_valid [OF assms that] obtain c where "e \<in> set (clean_email c)" by blast
    from clean_email_valid [OF this] have "re_match no_flags rx_email_strict e" by blast
    then show ?thesis by (rule email_strict_one_dot)
  qed
  have "clean_emails ls [candidate] = []" if two: "2 \<le> dots (domain_part (lower candidate))"
  proof (rule ccontr)
    assume "clean_emails ls [candidate] \<noteq> []"
    then obtain e where e: "e \<in> set (clean_emails ls [candidate])" by (cases "clean_emails ls [candidate]") auto
    from clean_emails_valid [OF assms e] have "e \<in> set (clean_email candidate)" by simp
    from clean_email_valid [OF this] have "e = lower candidate" by blast
    with one [OF e] two show False by simp
  qed
  with one show ?thesis unfolding fst_extract by blast
qed

theorem strict_email_one_dot_domain_witness:
  "set_order_ok remdups
   \<and> 2 \<le> dots (domain_part (lower ''user@mail.example.com''))
   \<and> clean_emails remdups [''user@mail.example.com''] = []
   \<and> clean_emails remdups [''User@Example.com''] = [''user@example.com'']
   \<and> dots (domain_part ''user@example.com'') = 1"
proof -
  have d: "2 \<le> dots (domain_part (lower ''user@mail.example.com''))" by code_simp
  have v: "clean_emails remdups [''User@Example.com''] = [''user@example.com'']" by code_simp
  from strict_email_one_dot_domain [OF set_order_ok_remdups,
         where candidate = "''user@mail.example.com''" and candidates = "[''User@Example.com'']"] d
  have r: "clean_emails remdups [''user@mail.example.com''] = []"
    and a: "\<forall>e \<in> set (clean_emails remdups [''User@Example.com'']). dots (domain_part e) = 1"
    by blast+
  from a have "dots (domain_part ''user@example.com'') = 1" unfolding v by simp
  with set_order_ok_remdups d r v show ?thesis by blast
qed

end
